theory Spec2Isabelle
  imports Complex_Main "HOL-Library.Product_Lexorder" "HOL-Library.Char_ord"
    "HOL-Library.List_Lexorder" "HOL-Library.Word"
begin

section \<open>Shallow embedding of find_growth_stocks.py\<close>

text \<open>
  The script screens symbols for year-over-year growth. Its two functions with decision
  logic, \<^verbatim>\<open>get_annual_growth\<close> and \<^verbatim>\<open>main\<close>, are embedded below.

  Modelling conventions.
  \<^item> A Python float is a real number or NaN (\<open>fnum\<close>). Rounding and infinities of IEEE
    arithmetic are not modelled; every comparison with NaN is false, as in Python. The
    arithmetic of line 60 on the cells of an integer column, which wraps around at 64
    bits, is modelled apart (\<open>pct_growth_int64\<close>).
  \<^item> A market-cap cell is a float or a text (\<open>pyval\<close>): \<^verbatim>\<open>get_latest_market_cap\<close> hands
    on whatever the cell holds.
  \<^item> A date is a triple (year, month, day) in lexicographic order; \<^verbatim>\<open>.dt.year\<close> is its
    first component and \<^verbatim>\<open>.dt.quarter\<close> is \<open>(month - 1) div 3 + 1\<close>. Unparseable dates
    are outside the model.
  \<^item> A data frame is the list of its rows.
  \<^item> An exception is a value of \<open>py_error\<close>; a function that can raise inside the try
    block returns a sum with the error on the left. What runs after the loop, outside the
    try block, has an \<open>outcome\<close>: it returns, or it raises and the run ends there.
\<close>

subsection \<open>Numbers\<close>

datatype fnum = NaN | Num real

text \<open>Python's \<^verbatim>\<open>a < b\<close> on floats.\<close>

fun flt :: "fnum \<Rightarrow> fnum \<Rightarrow> bool" where
  "flt (Num a) (Num b) = (a < b)"
| "flt _ _ = False"

text \<open>Python's \<^verbatim>\<open>a > b\<close> on floats.\<close>

definition fgt :: "fnum \<Rightarrow> fnum \<Rightarrow> bool" where
  "fgt a b = flt b a"

text \<open>\<^verbatim>\<open>pd.notna\<close> on a scalar.\<close>

fun notna :: "fnum \<Rightarrow> bool" where
  "notna NaN = False"
| "notna (Num _) = True"

subsection \<open>Rows of the two tables\<close>

type_synonym date = "int \<times> nat \<times> nat"

definition year_of :: "date \<Rightarrow> int" where
  "year_of d = fst d"

definition quarter_of :: "date \<Rightarrow> nat" where
  "quarter_of d = (fst (snd d) - 1) div 3 + 1"

record frec =
  fs_date :: date
  revenue :: fnum
  op_margin :: fnum

text \<open>
  A cell of the market-cap column: a number (NaN for an empty cell) when the column is
  numeric, the text of the cell when the column holds anything that is not a number.
\<close>

datatype pyval = PNum fnum | PStr string

record mrec =
  ms_date :: date
  market_cap :: pyval

definition qkey :: "frec \<Rightarrow> int \<times> nat" where
  "qkey r = (year_of (fs_date r), quarter_of (fs_date r))"

text \<open>
  \<^verbatim>\<open>df.sort_values(col, ascending=False)\<close>: pandas reverses the rows, sorts them
  ascending and reverses the outcome. Rows with equal dates have equal (year, quarter),
  so the order among them does not change which keys the first rows carry.
\<close>

definition sort_desc :: "('a \<Rightarrow> date) \<Rightarrow> 'a list \<Rightarrow> 'a list" where
  "sort_desc f xs = rev (sort_key f (rev xs))"

subsection \<open>The lookup \<^verbatim>\<open>df.loc[(year, quarter)]\<close>\<close>

datatype py_error = ValueError | IndexError | ReadError | TypeError

text \<open>
  On the frame indexed by (year, quarter), \<^verbatim>\<open>df.loc[k]\<close> raises KeyError when no row
  has key \<open>k\<close>. When the index has no duplicate key it returns the one row as a Series;
  when the index has a duplicate key anywhere it returns a DataFrame of the matching
  rows, also if only one row matches. This is the lookup of pandas up to 2.x; later
  versions return a Series for a key that one row matches, whatever the other keys are.
  Both return a DataFrame for a key that several rows match.
\<close>

datatype lookup = LKeyError | Series frec | DataFrame "frec list"

definition loc :: "frec list \<Rightarrow> int \<times> nat \<Rightarrow> lookup" where
  "loc df k =
     (case filter (\<lambda>r. qkey r = k) df of
        [] \<Rightarrow> LKeyError
      | r # rs \<Rightarrow> if distinct (map qkey df) then Series r else DataFrame (r # rs))"

subsection \<open>\<^verbatim>\<open>get_annual_growth\<close>\<close>

record growth =
  rev_growths :: "real list"
  opm_growths :: "real list"
  recent_revenue :: "fnum option"
  recent_op_margin :: "fnum option"

text \<open>The expression \<^verbatim>\<open>100 * (curr - prev) / abs(prev)\<close>.\<close>

definition pct_growth :: "real \<Rightarrow> real \<Rightarrow> real" where
  "pct_growth c p = 100 * (c - p) / \<bar>p\<bar>"

text \<open>
  The same expression on two cells of an integer column. numpy computes
  \<^verbatim>\<open>100 * (curr - prev)\<close> and \<^verbatim>\<open>abs(prev)\<close> on 64-bit integers, which wrap around; the
  division then gives a float. The model gives the exact quotient of the two wrapped
  integers, of which that float is the rounding.
\<close>

definition numerator_int64 :: "64 word \<Rightarrow> 64 word \<Rightarrow> 64 word" where
  "numerator_int64 c p = 100 * (c - p)"

definition abs_int64 :: "64 word \<Rightarrow> 64 word" where
  "abs_int64 p = (if sint p < 0 then - p else p)"

definition pct_growth_int64 :: "64 word \<Rightarrow> 64 word \<Rightarrow> real" where
  "pct_growth_int64 c p =
     real_of_int (sint (numerator_int64 c p)) / real_of_int (sint (abs_int64 p))"

text \<open>
  Lines 59 to 61: the revenue entry of one anchor, from the anchor's and the prior
  year's revenue.
\<close>

fun rev_entry :: "fnum \<Rightarrow> fnum \<Rightarrow> real list" where
  "rev_entry (Num c) (Num p) = (if p \<noteq> 0 then [pct_growth c p] else [])"
| "rev_entry _ _ = []"

text \<open>Lines 63 to 68: the margin entry of one anchor.\<close>

fun opm_entry :: "fnum \<Rightarrow> fnum \<Rightarrow> real list" where
  "opm_entry (Num c) (Num p) = (if c > 0 \<and> p > 0 then [pct_growth c p] else [])"
| "opm_entry _ _ = []"

text \<open>Lines 55 to 68 for an anchor whose two lookups gave one row each.\<close>

definition growth_step :: "nat \<Rightarrow> frec \<Rightarrow> frec \<Rightarrow> growth \<Rightarrow> growth" where
  "growth_step i cur prv st =
     (let st1 = (if i = 0
                 then st\<lparr>recent_revenue := Some (revenue cur),
                         recent_op_margin := Some (op_margin cur)\<rparr>
                 else st)
      in st1\<lparr>rev_growths := rev_growths st1 @ rev_entry (revenue cur) (revenue prv),
              opm_growths := opm_growths st1 @ opm_entry (op_margin cur) (op_margin prv)\<rparr>)"

text \<open>
  The loop of lines 46 to 71 over the anchor rows. A KeyError of either lookup returns
  the triple of None (\<open>Inr None\<close>). When a lookup gives a DataFrame, the columns read
  from it are Series, and the test of line 59 asks for the truth value of a Series, which
  raises ValueError; the handler of line 70 does not catch it.
\<close>

fun growth_loop :: "frec list \<Rightarrow> nat \<Rightarrow> frec list \<Rightarrow> growth \<Rightarrow> py_error + growth option" where
  "growth_loop df i [] st = Inr (Some st)"
| "growth_loop df i (row # rows) st =
     (let curr_q = (year_of (fs_date row), quarter_of (fs_date row));
          prev_q = (year_of (fs_date row) - 1, quarter_of (fs_date row))
      in case loc df curr_q of
           LKeyError \<Rightarrow> Inr None
         | Series cur \<Rightarrow>
             (case loc df prev_q of
                LKeyError \<Rightarrow> Inr None
              | Series prv \<Rightarrow> growth_loop df (Suc i) rows (growth_step i cur prv st)
              | DataFrame _ \<Rightarrow> Inl ValueError)
         | DataFrame _ \<Rightarrow>
             (case loc df prev_q of
                LKeyError \<Rightarrow> Inr None
              | _ \<Rightarrow> Inl ValueError))"

definition init_growth :: growth where
  "init_growth = \<lparr>rev_growths = [], opm_growths = [],
                  recent_revenue = None, recent_op_margin = None\<rparr>"

definition get_annual_growth_n :: "nat \<Rightarrow> frec list \<Rightarrow> py_error + growth option" where
  "get_annual_growth_n required_quarters df0 =
     (let df = sort_desc fs_date df0
      in if length df < required_quarters then Inr None
         else growth_loop df 0 (take required_quarters df) init_growth)"

text \<open>The call of line 112 uses the default \<^verbatim>\<open>required_quarters=2\<close>.\<close>

definition get_annual_growth :: "frec list \<Rightarrow> py_error + growth option" where
  "get_annual_growth df0 = get_annual_growth_n 2 df0"

subsection \<open>\<^verbatim>\<open>get_latest_market_cap\<close>\<close>

text \<open>
  \<^verbatim>\<open>df.iloc[0]\<close> raises IndexError on a frame without rows. The cell is returned as
  it is, a number, NaN or a text. When several rows carry the latest date pandas does not
  fix which of them comes first; the model takes the one that comes first in the file.
\<close>

definition get_latest_market_cap :: "mrec list \<Rightarrow> py_error + pyval" where
  "get_latest_market_cap df =
     (case sort_desc ms_date df of
        [] \<Rightarrow> Inl IndexError
      | r # _ \<Rightarrow> Inr (market_cap r))"

subsection \<open>\<^verbatim>\<open>fmt\<close>\<close>

text \<open>
  \<^verbatim>\<open>fmt\<close> prints a number with two decimal places and NaN as the text NaN. The model
  gives the printed number in hundredths, rounded to the nearest one, and \<open>None\<close> for
  NaN. A value halfway between two hundredths is rounded up here; Python rounds the
  binary value of the float, which can go either way.
\<close>

definition fmt_hundredths :: "fnum \<Rightarrow> int option" where
  "fmt_hundredths val = (case val of NaN \<Rightarrow> None | Num x \<Rightarrow> Some (round (x * 100)))"

subsection \<open>\<^verbatim>\<open>main\<close>\<close>

record args =
  pergro_revenue :: fnum
  pergro_op_margin :: fnum
  num_result :: int
  revenue_limit :: fnum
  op_margin_limit :: fnum

datatype skip_reason =
    MarketCapNotFound
  | InsufficientData
  | RevenueBelowLimit
  | OpMarginBelowLimit
  | BothAvailableFailed
  | OnlyRevenueFailed
  | OnlyOpMarginFailed
  | NeitherAvailable
  | ProcessingError py_error

record result_row =
  r_symbol :: string
  rev_g1 :: fnum
  rev_g2 :: fnum
  opm_g1 :: fnum
  opm_g2 :: fnum
  r_market_cap :: pyval

text \<open>Lines 127 and 128: a non-empty list of two entries, each above the threshold.\<close>

definition growth_ok :: "fnum \<Rightarrow> real list \<Rightarrow> bool" where
  "growth_ok thr gs = (gs \<noteq> [] \<and> length gs = 2 \<and> list_all (\<lambda>g. fgt (Num g) thr) gs)"

text \<open>
  Lines 127 to 145: the branch on which lists are non-empty. \<open>None\<close> means that no
  branch skipped the symbol.
\<close>

definition growth_decision :: "args \<Rightarrow> real list \<Rightarrow> real list \<Rightarrow> skip_reason option" where
  "growth_decision a revs opms =
     (let rev_ok = growth_ok (pergro_revenue a) revs;
          opm_ok = growth_ok (pergro_op_margin a) opms
      in if revs \<noteq> [] \<and> opms \<noteq> [] then
           (if \<not> (rev_ok \<and> opm_ok) then Some BothAvailableFailed else None)
         else if revs \<noteq> [] then
           (if \<not> rev_ok then Some OnlyRevenueFailed else None)
         else if opms \<noteq> [] then
           (if \<not> opm_ok then Some OnlyOpMarginFailed else None)
         else Some NeitherAvailable)"

text \<open>Lines 120 to 125: the two floors on the most recent values.\<close>

definition below_limit :: "fnum option \<Rightarrow> fnum \<Rightarrow> bool" where
  "below_limit recent limit = (case recent of None \<Rightarrow> False | Some v \<Rightarrow> flt v limit)"

text \<open>Lines 117 to 145: floors first, then the growth branch.\<close>

definition threshold_filter :: "args \<Rightarrow> growth \<Rightarrow> skip_reason option" where
  "threshold_filter a g =
     (if below_limit (recent_revenue g) (revenue_limit a) then Some RevenueBelowLimit
      else if below_limit (recent_op_margin g) (op_margin_limit a) then Some OpMarginBelowLimit
      else growth_decision a (rev_growths g) (opm_growths g))"

text \<open>Lines 149 to 152: the entry at a position, or NaN when the list is too short.\<close>

definition entry_or_nan :: "real list \<Rightarrow> nat \<Rightarrow> fnum" where
  "entry_or_nan gs i = (if gs \<noteq> [] \<and> length gs > i then Num (gs ! i) else NaN)"

definition make_row :: "string \<Rightarrow> growth \<Rightarrow> pyval \<Rightarrow> result_row" where
  "make_row name g mc =
     \<lparr>r_symbol = name,
      rev_g1 = entry_or_nan (rev_growths g) 0, rev_g2 = entry_or_nan (rev_growths g) 1,
      opm_g1 = entry_or_nan (opm_growths g) 0, opm_g2 = entry_or_nan (opm_growths g) 1,
      r_market_cap = mc\<rparr>"

text \<open>
  What the loop body meets for one entry of the directory: the symbol, whether the
  market-cap file exists, and what \<^verbatim>\<open>pd.read_csv\<close> gives for each file (\<open>None\<close> when
  it raises).
\<close>

record symbol_input =
  symbol :: string
  ms_exists :: bool
  fs_read :: "frec list option"
  ms_read :: "mrec list option"

text \<open>
  Lines 104 to 158 for one symbol: the reason for skipping it, or the row appended to
  the results. Every exception raised inside the try block ends in the handler of line
  156.
\<close>

definition process_symbol :: "args \<Rightarrow> symbol_input \<Rightarrow> skip_reason + result_row" where
  "process_symbol a s =
     (if \<not> ms_exists s then Inl MarketCapNotFound
      else case fs_read s of
        None \<Rightarrow> Inl (ProcessingError ReadError)
      | Some fs_df \<Rightarrow>
         (case ms_read s of
            None \<Rightarrow> Inl (ProcessingError ReadError)
          | Some ms_df \<Rightarrow>
             (case get_annual_growth fs_df of
                Inl e \<Rightarrow> Inl (ProcessingError e)
              | Inr None \<Rightarrow> Inl InsufficientData
              | Inr (Some g) \<Rightarrow>
                 (case threshold_filter a g of
                    Some reason \<Rightarrow> Inl reason
                  | None \<Rightarrow>
                     (case get_latest_market_cap ms_df of
                        Inl e \<Rightarrow> Inl (ProcessingError e)
                      | Inr mc \<Rightarrow> Inr (make_row (symbol s) g mc))))))"

text \<open>The loop of lines 94 to 158: the rows appended to \<^verbatim>\<open>results\<close>, in order.\<close>

fun collect :: "args \<Rightarrow> symbol_input list \<Rightarrow> result_row list" where
  "collect a [] = []"
| "collect a (s # ss) =
     (case process_symbol a s of
        Inl _ \<Rightarrow> collect a ss
      | Inr row \<Rightarrow> row # collect a ss)"

text \<open>
  The slice \<^verbatim>\<open>xs[:n]\<close>: the first \<open>n\<close> entries for \<open>n \<ge> 0\<close>, all but the last
  \<open>-n\<close> entries for \<open>n < 0\<close>.
\<close>

definition slice_to :: "'a list \<Rightarrow> int \<Rightarrow> 'a list" where
  "slice_to xs n = (if 0 \<le> n then take (nat n) xs else take (length xs - nat (- n)) xs)"

text \<open>
  Lines 160 to 164 run after the loop and outside the try block: what raises there ends
  the run.
\<close>

datatype 'a outcome = Returns 'a | Raises py_error | Unspecified

fun is_str :: "pyval \<Rightarrow> bool" where
  "is_str (PStr _) = True"
| "is_str (PNum _) = False"

fun is_number :: "pyval \<Rightarrow> bool" where
  "is_number (PNum (Num _)) = True"
| "is_number _ = False"

fun num_of :: "pyval \<Rightarrow> real" where
  "num_of (PNum (Num x)) = x"
| "num_of _ = 0"

fun str_of :: "pyval \<Rightarrow> string" where
  "str_of (PStr s) = s"
| "str_of _ = []"

text \<open>Python's \<^verbatim>\<open>a < b\<close> on two keys: a text and a float do not compare.\<close>

fun py_lt :: "pyval \<Rightarrow> pyval \<Rightarrow> py_error + bool" where
  "py_lt (PNum a) (PNum b) = Inr (flt a b)"
| "py_lt (PStr s) (PStr t) = Inr (s < t)"
| "py_lt _ _ = Inl TypeError"

text \<open>No key is less than the key before it.\<close>

fun no_descent :: "pyval list \<Rightarrow> bool" where
  "no_descent (a # b # ks) = (py_lt b a = Inr False \<and> no_descent (b # ks))"
| "no_descent _ = True"

text \<open>
  \<^verbatim>\<open>list.sort(key=...)\<close>, a stable sort that compares keys with \<^verbatim>\<open><\<close> only.
  \<^item> With fewer than two entries nothing is compared.
  \<^item> With a text key and a float key, a text is compared with a float at some point, and
    that comparison raises TypeError.
  \<^item> With keys that are all texts, or all numbers, \<^verbatim>\<open><\<close> is a total order and the
    outcome is the stable sort.
  \<^item> With NaN among float keys \<^verbatim>\<open><\<close> is not an order. When no key is less than the
    key before it, the scan for the first ascending run covers the whole list and the list
    is left as it is. Otherwise the order depends on which comparisons the implementation
    makes, and the model leaves it open (\<open>Unspecified\<close>).
\<close>

definition list_sort :: "('a \<Rightarrow> pyval) \<Rightarrow> 'a list \<Rightarrow> 'a list outcome" where
  "list_sort key xs =
     (let ks = map key xs
      in if length xs < 2 then Returns xs
         else if list_ex is_str ks \<and> list_ex (\<lambda>k. \<not> is_str k) ks then Raises TypeError
         else if list_all is_str ks then Returns (sort_key (\<lambda>x. str_of (key x)) xs)
         else if list_all is_number ks then Returns (sort_key (\<lambda>x. num_of (key x)) xs)
         else if no_descent ks then Returns xs
         else Unspecified)"

text \<open>Line 160, the sort by market cap, and the slice of line 163.\<close>

definition rank :: "result_row list \<Rightarrow> int \<Rightarrow> result_row list outcome" where
  "rank results n =
     (case list_sort r_market_cap results of
        Returns rs \<Rightarrow> Returns (slice_to rs n)
      | Raises e \<Rightarrow> Raises e
      | Unspecified \<Rightarrow> Unspecified)"

text \<open>
  Line 164 for the rows of the slice: the format \<^verbatim>\<open>{mcap:>15,.1f}\<close> raises ValueError
  for a market cap that is a text; a float, NaN included, is printed.
\<close>

definition print_rows :: "result_row list \<Rightarrow> result_row list outcome" where
  "print_rows rows =
     (if list_ex (\<lambda>r. is_str (r_market_cap r)) rows then Raises ValueError
      else Returns rows)"

text \<open>The whole run: the rows printed, or the exception that ends it.\<close>

definition main :: "args \<Rightarrow> symbol_input list \<Rightarrow> result_row list outcome" where
  "main a ss =
     (case rank (collect a ss) (num_result a) of
        Returns rows \<Rightarrow> print_rows rows
      | Raises e \<Rightarrow> Raises e
      | Unspecified \<Rightarrow> Unspecified)"

subsection \<open>Notions used to state the properties\<close>

text \<open>The prior-year key of a row: line 50.\<close>

definition prior_key :: "frec \<Rightarrow> int \<times> nat" where
  "prior_key r = (year_of (fs_date r) - 1, quarter_of (fs_date r))"

text \<open>The anchor rows: line 39 after the sort of line 31.\<close>

definition anchors :: "frec list \<Rightarrow> frec list" where
  "anchors df = take 2 (sort_desc fs_date df)"

subsection \<open>Concrete inputs\<close>

definition mk_frec :: "date \<Rightarrow> fnum \<Rightarrow> fnum \<Rightarrow> frec" where
  "mk_frec d r m = \<lparr>fs_date = d, revenue = r, op_margin = m\<rparr>"

text \<open>Four quarters: 2024Q2, 2023Q2, 2024Q1 and 2023Q1.\<close>

definition scenario_df :: "frec list" where
  "scenario_df =
     [mk_frec (2024, 6, 30) (Num 120) (Num 20),
      mk_frec (2023, 6, 30) (Num 100) (Num 15),
      mk_frec (2024, 3, 31) (Num 110) (Num 18),
      mk_frec (2023, 3, 31) (Num 90) (Num 10)]"

text \<open>
  Two rows in 2023Q2, and no row for 2023Q1: the prior-year key of the second anchor
  is absent and the index has a duplicate key.
\<close>

definition dup_key_df :: "frec list" where
  "dup_key_df =
     [mk_frec (2024, 6, 30) (Num 120) (Num 20),
      mk_frec (2024, 3, 31) (Num 110) (Num 18),
      mk_frec (2023, 6, 30) (Num 100) (Num 15),
      mk_frec (2023, 6, 29) (Num 100) (Num 15)]"

text \<open>The same without the duplicate.\<close>

definition missing_prior_df :: "frec list" where
  "missing_prior_df =
     [mk_frec (2024, 6, 30) (Num 120) (Num 20),
      mk_frec (2024, 3, 31) (Num 110) (Num 18),
      mk_frec (2023, 6, 30) (Num 100) (Num 15)]"

definition scenario_ms :: "mrec list" where
  "scenario_ms = [\<lparr>ms_date = (2024, 7, 1), market_cap = PNum (Num 50000000000)\<rparr>]"

definition mk_args :: "real \<Rightarrow> real \<Rightarrow> int \<Rightarrow> real \<Rightarrow> real \<Rightarrow> args" where
  "mk_args pr po n rl ol =
     \<lparr>pergro_revenue = Num pr, pergro_op_margin = Num po, num_result = n,
      revenue_limit = Num rl, op_margin_limit = Num ol\<rparr>"

definition mk_input :: "string \<Rightarrow> frec list \<Rightarrow> mrec list \<Rightarrow> symbol_input" where
  "mk_input name fs ms =
     \<lparr>symbol = name, ms_exists = True, fs_read = Some fs, ms_read = Some ms\<rparr>"

text \<open>The second anchor has no revenue: one revenue entry, two margin entries.\<close>

definition partial_df :: "frec list" where
  "partial_df =
     [mk_frec (2024, 6, 30) (Num 120) (Num 20),
      mk_frec (2023, 6, 30) (Num 100) (Num 15),
      mk_frec (2024, 3, 31) NaN (Num 18),
      mk_frec (2023, 3, 31) (Num 90) (Num 10)]"

text \<open>Both anchors have no revenue; the margins are large.\<close>

definition nan_recent_df :: "frec list" where
  "nan_recent_df =
     [mk_frec (2024, 6, 30) NaN (Num 30000000000),
      mk_frec (2024, 3, 31) NaN (Num 20000000000),
      mk_frec (2023, 6, 30) (Num 1) (Num 10000000000),
      mk_frec (2023, 3, 31) (Num 1) (Num 10000000000)]"

definition mk_row :: "string \<Rightarrow> pyval \<Rightarrow> result_row" where
  "mk_row name mc =
     \<lparr>r_symbol = name, rev_g1 = NaN, rev_g2 = NaN, opm_g1 = NaN, opm_g2 = NaN,
      r_market_cap = mc\<rparr>"

text \<open>The most recent quarter has neither revenue nor margin.\<close>

definition nan_both_df :: "frec list" where
  "nan_both_df =
     [mk_frec (2024, 6, 30) NaN NaN,
      mk_frec (2024, 3, 31) (Num 110) (Num 18),
      mk_frec (2023, 6, 30) (Num 100) (Num 15),
      mk_frec (2023, 3, 31) (Num 90) (Num 10)]"

definition mk_growth :: "real list \<Rightarrow> real list \<Rightarrow> fnum \<Rightarrow> fnum \<Rightarrow> growth" where
  "mk_growth revs opms r m =
     \<lparr>rev_growths = revs, opm_growths = opms,
      recent_revenue = Some r, recent_op_margin = Some m\<rparr>"

text \<open>Market-cap tables whose latest cell is a given value.\<close>

definition mk_ms :: "pyval \<Rightarrow> mrec list" where
  "mk_ms mc = [\<lparr>ms_date = (2024, 7, 1), market_cap = mc\<rparr>]"

text \<open>Three collected rows, the second with a NaN market cap.\<close>

definition nan_cap_rows :: "result_row list" where
  "nan_cap_rows =
     [mk_row ''A'' (PNum (Num 5)), mk_row ''B'' (PNum NaN), mk_row ''C'' (PNum (Num 3))]"

text \<open>A symbol with an empty table of fundamentals and no market-cap file.\<close>

definition no_ms_input :: symbol_input where
  "no_ms_input = \<lparr>symbol = ''N'', ms_exists = False, fs_read = Some [], ms_read = None\<rparr>"

subsection \<open>The decision table as the specification words it\<close>

text \<open>
  Section 4.2 of the specification: a metric is available when its sequence has exactly
  two entries; both available, accept when all entries of both exceed their thresholds;
  one available, accept when all its entries exceed its threshold; none, reject.
\<close>

definition spec_table_accept :: "args \<Rightarrow> real list \<Rightarrow> real list \<Rightarrow> bool" where
  "spec_table_accept a revs opms =
     (let rev_av = (length revs = 2); opm_av = (length opms = 2)
      in if rev_av \<and> opm_av then
           list_all (\<lambda>g. fgt (Num g) (pergro_revenue a)) revs \<and>
           list_all (\<lambda>g. fgt (Num g) (pergro_op_margin a)) opms
         else if rev_av then list_all (\<lambda>g. fgt (Num g) (pergro_revenue a)) revs
         else if opm_av then list_all (\<lambda>g. fgt (Num g) (pergro_op_margin a)) opms
         else False)"

section \<open>Properties\<close>

lemmas model_defs =
  get_annual_growth_def get_annual_growth_n_def sort_desc_def loc_def qkey_def
  year_of_def quarter_of_def growth_step_def init_growth_def pct_growth_def
  prior_key_def anchors_def mk_frec_def

lemmas main_defs =
  process_symbol_def threshold_filter_def below_limit_def growth_decision_def
  growth_ok_def fgt_def get_latest_market_cap_def make_row_def entry_or_nan_def
  mk_args_def mk_input_def

subsection \<open>Sorting keeps the rows\<close>

lemma length_sort_desc: "length (sort_desc f xs) = length xs"
  by (simp add: sort_desc_def)

lemma set_sort_desc: "set (sort_desc f xs) = set xs"
  by (simp add: sort_desc_def)

lemma distinct_qkey_sort_desc:
  "distinct (map qkey (sort_desc f xs)) = distinct (map qkey xs)"
  by (simp add: sort_desc_def distinct_map)

subsection \<open>The loop over the symbols\<close>

lemma collect_append: "collect a (xs @ ys) = collect a xs @ collect a ys"
  by (induction xs) (auto split: sum.splits)

lemma collect_skip:
  "process_symbol a s = Inl r \<Longrightarrow> collect a (xs @ s # ys) = collect a (xs @ ys)"
  by (simp add: collect_append)

subsection \<open>Fewer than two records\<close>

lemma few_records_no_data: "length df < 2 \<Longrightarrow> get_annual_growth df = Inr None"
  by (simp add: get_annual_growth_def get_annual_growth_n_def length_sort_desc)

text \<open>
  Claim C3. A table of fundamentals with fewer than two records makes
  \<^verbatim>\<open>get_annual_growth\<close> return the triple of None, and the symbol is skipped whatever
  the arguments are: it adds no row to the collected results or to the output.
\<close>

theorem few_records_excluded:
  assumes "length df < 2"
  shows "get_annual_growth df = Inr None \<and>
    (fs_read s = Some df \<longrightarrow>
       (\<exists>r. process_symbol a s = Inl r) \<and>
       collect a (xs @ s # ys) = collect a (xs @ ys) \<and>
       main a (xs @ s # ys) = main a (xs @ ys))"
proof -
  have nd: "get_annual_growth df = Inr None"
    using assms by (rule few_records_no_data)
  have "\<exists>r. process_symbol a s = Inl r" if "fs_read s = Some df"
    using that nd by (auto simp: process_symbol_def split: option.splits)
  then show ?thesis
    using nd by (auto simp: collect_append main_def)
qed

theorem few_records_excluded_witness:
  "length [mk_frec (2024, 6, 30) (Num 120) (Num 20)] < 2 \<and>
   fs_read (mk_input ''A'' [mk_frec (2024, 6, 30) (Num 120) (Num 20)] scenario_ms)
     = Some [mk_frec (2024, 6, 30) (Num 120) (Num 20)] \<and>
   get_annual_growth [mk_frec (2024, 6, 30) (Num 120) (Num 20)] = Inr None \<and>
   process_symbol (mk_args 0 0 5 0 0)
     (mk_input ''A'' [mk_frec (2024, 6, 30) (Num 120) (Num 20)] scenario_ms)
     = Inl InsufficientData \<and>
   main (mk_args 0 0 5 0 0)
     ([] @ mk_input ''A'' [mk_frec (2024, 6, 30) (Num 120) (Num 20)] scenario_ms # [])
     = main (mk_args 0 0 5 0 0) ([] @ [])"
  using few_records_excluded
    [of "[mk_frec (2024, 6, 30) (Num 120) (Num 20)]"
        "mk_input ''A'' [mk_frec (2024, 6, 30) (Num 120) (Num 20)] scenario_ms"
        "mk_args 0 0 5 0 0" "[]" "[]"]
  by (simp add: mk_input_def process_symbol_def)

subsection \<open>A missing prior-year quarter\<close>

lemma loc_KeyError_iff: "loc df k = LKeyError \<longleftrightarrow> k \<notin> qkey ` set df"
proof -
  have "filter (\<lambda>r. qkey r = k) df = [] \<longleftrightarrow> k \<notin> qkey ` set df"
    by (auto simp: filter_empty_conv)
  then show ?thesis
    by (auto simp: loc_def split: list.splits)
qed

lemma loc_distinct_no_frame: "distinct (map qkey df) \<Longrightarrow> loc df k \<noteq> DataFrame rs"
  by (simp add: loc_def split: list.splits)

lemma growth_loop_Some_prior:
  "growth_loop df i rows st = Inr (Some g) \<Longrightarrow> row \<in> set rows
     \<Longrightarrow> prior_key row \<in> qkey ` set df"
proof (induction rows arbitrary: i st)
  case Nil
  then show ?case by simp
next
  case (Cons r rows)
  from Cons.prems(1) have pr: "loc df (prior_key r) \<noteq> LKeyError"
    by (auto simp: prior_key_def Let_def split: lookup.splits)
  show ?case
  proof (cases "row = r")
    case True
    with pr show ?thesis by (simp add: loc_KeyError_iff)
  next
    case False
    with Cons.prems(2) have "row \<in> set rows" by simp
    moreover from Cons.prems(1)
    obtain i' st' where "growth_loop df i' rows st' = Inr (Some g)"
      by (auto simp: Let_def split: lookup.splits)
    ultimately show ?thesis by (rule Cons.IH[rotated])
  qed
qed

lemma growth_loop_distinct_no_error:
  "distinct (map qkey df) \<Longrightarrow> growth_loop df i rows st \<noteq> Inl e"
proof (induction rows arbitrary: i st)
  case Nil
  then show ?case by simp
next
  case (Cons r rows)
  then show ?case
    by (auto simp: Let_def loc_distinct_no_frame split: lookup.splits)
qed

lemma get_annual_growth_loop:
  "2 \<le> length df \<Longrightarrow>
   get_annual_growth df = growth_loop (sort_desc fs_date df) 0 (anchors df) init_growth"
  by (simp add: get_annual_growth_def get_annual_growth_n_def length_sort_desc
      anchors_def Let_def)

lemma growth_loop_first_prior_missing:
  "loc df (prior_key r) = LKeyError \<Longrightarrow> growth_loop df i (r # rows) st = Inr None"
  by (simp add: Let_def prior_key_def split: lookup.splits)

text \<open>
  Take a table of at least two records in which the prior-year key of one of the two
  anchor rows is absent. Then \<^verbatim>\<open>get_annual_growth\<close> never returns growth lists. It returns
  the triple of None when no two records share a (year, quarter) key, and also, whatever
  the keys are, when the anchor is the first one.
\<close>

lemma missing_prior_year_no_data:
  assumes "2 \<le> length df"
    and "row \<in> set (anchors df)"
    and "prior_key row \<notin> qkey ` set df"
  shows "(\<forall>g. get_annual_growth df \<noteq> Inr (Some g)) \<and>
         (distinct (map qkey df) \<or> row = hd (anchors df) \<longrightarrow>
            get_annual_growth df = Inr None)"
proof -
  let ?sd = "sort_desc fs_date df"
  note eq = get_annual_growth_loop[OF assms(1)]
  have no_some: "get_annual_growth df \<noteq> Inr (Some g)" for g
  proof
    assume "get_annual_growth df = Inr (Some g)"
    with eq have "growth_loop ?sd 0 (anchors df) init_growth = Inr (Some g)" by simp
    from growth_loop_Some_prior[OF this assms(2)] have "prior_key row \<in> qkey ` set df"
      by (simp add: set_sort_desc)
    with assms(3) show False by simp
  qed
  have d: "get_annual_growth df = Inr None" if "distinct (map qkey df)"
  proof -
    from that have "distinct (map qkey ?sd)" by (simp add: distinct_qkey_sort_desc)
    then have no_err: "get_annual_growth df \<noteq> Inl e" for e
      unfolding eq by (rule growth_loop_distinct_no_error)
    show ?thesis
    proof (cases "get_annual_growth df")
      case (Inl e)
      with no_err[of e] show ?thesis by simp
    next
      case (Inr r)
      show ?thesis
      proof (cases r)
        case None
        with Inr show ?thesis by simp
      next
        case (Some g)
        with Inr no_some[of g] show ?thesis by simp
      qed
    qed
  qed
  have f: "get_annual_growth df = Inr None" if "row = hd (anchors df)"
  proof -
    from assms(2) have "anchors df \<noteq> []" by auto
    with that have "anchors df = row # tl (anchors df)" by simp
    then obtain rest where an: "anchors df = row # rest" ..
    from assms(3) have "loc ?sd (prior_key row) = LKeyError"
      by (simp add: loc_KeyError_iff set_sort_desc)
    then show ?thesis
      unfolding eq an by (rule growth_loop_first_prior_missing)
  qed
  from no_some d f show ?thesis by blast
qed

text \<open>
  Claim C2. The code breaks the claim on a table with a duplicate key. In the table
  \<open>dup_key_df\<close> the prior-year key (2023, 1) of the second anchor is absent, and two rows
  carry the key (2023, 2), the prior-year key of the first anchor. The lookup of that key
  gives a DataFrame, the test of line 59 asks for the truth value of a Series and raises
  ValueError, and the handler of line 70 catches KeyError only: the function raises where
  the claim has it return the triple of None. The same table without the duplicate row
  returns the triple of None. In the loop the symbol is skipped by the handler of line
  156 as a processing error, not for insufficient data.
\<close>

theorem duplicate_key_raises_instead_of_no_data:
  "2 \<le> length dup_key_df \<and>
   anchors dup_key_df
     = [mk_frec (2024, 6, 30) (Num 120) (Num 20), mk_frec (2024, 3, 31) (Num 110) (Num 18)] \<and>
   prior_key (mk_frec (2024, 3, 31) (Num 110) (Num 18)) \<notin> qkey ` set dup_key_df \<and>
   get_annual_growth dup_key_df = Inl ValueError \<and>
   get_annual_growth dup_key_df \<noteq> Inr None \<and>
   get_annual_growth missing_prior_df = Inr None \<and>
   process_symbol (mk_args 15 20 5 0 0) (mk_input ''B'' dup_key_df scenario_ms)
     = Inl (ProcessingError ValueError) \<and>
   process_symbol (mk_args 15 20 5 0 0) (mk_input ''B'' missing_prior_df scenario_ms)
     = Inl InsufficientData"
proof -
  have a: "2 \<le> length dup_key_df"
    "anchors dup_key_df
     = [mk_frec (2024, 6, 30) (Num 120) (Num 20), mk_frec (2024, 3, 31) (Num 110) (Num 18)]"
    "prior_key (mk_frec (2024, 3, 31) (Num 110) (Num 18)) \<notin> qkey ` set dup_key_df"
    by (simp_all add: dup_key_df_def model_defs)
  have g: "get_annual_growth dup_key_df = Inl ValueError"
    by (simp add: dup_key_df_def model_defs)
  have n: "get_annual_growth missing_prior_df = Inr None"
    by (simp add: missing_prior_df_def model_defs)
  have p: "process_symbol (mk_args 15 20 5 0 0) (mk_input ''B'' dup_key_df scenario_ms)
     = Inl (ProcessingError ValueError)"
    "process_symbol (mk_args 15 20 5 0 0) (mk_input ''B'' missing_prior_df scenario_ms)
     = Inl InsufficientData"
    by (simp_all add: process_symbol_def mk_input_def g n)
  from a g n p show ?thesis by simp
qed

subsection \<open>The entries of one anchor\<close>

lemma loc_Series_member:
  assumes "loc df (qkey r) = Series c" and "r \<in> set df"
  shows "c = r"
proof -
  from assms(1) have d: "distinct (map qkey df)"
    by (auto simp: loc_def split: list.splits if_splits)
  from assms(1) obtain rs where "filter (\<lambda>x. qkey x = qkey r) df = c # rs"
    by (auto simp: loc_def split: list.splits if_splits)
  then have "c \<in> set (filter (\<lambda>x. qkey x = qkey r) df)" by simp
  then have "c \<in> set df" and "qkey c = qkey r" by simp_all
  moreover from d have "inj_on qkey (set df)" by (simp add: distinct_map)
  ultimately show ?thesis using assms(2) by (auto dest: inj_onD)
qed

lemma growth_loop_Cons_Some:
  "growth_loop df i (r # rows) st = Inr (Some g) \<Longrightarrow>
     \<exists>c p. loc df (qkey r) = Series c \<and> loc df (prior_key r) = Series p \<and>
           growth_loop df (Suc i) rows (growth_step i c p st) = Inr (Some g)"
  by (auto simp: Let_def qkey_def prior_key_def split: lookup.splits)

lemma get_annual_growth_Some_length:
  assumes "get_annual_growth df = Inr (Some g)"
  shows "2 \<le> length df"
proof (rule ccontr)
  assume "\<not> 2 \<le> length df"
  then have "get_annual_growth df = Inr None"
    by (simp add: few_records_no_data)
  with assms show False by simp
qed

text \<open>
  When the function returns growth lists, they are the outcome of the loop body run on
  the first anchor and its prior-year row, then on the second anchor and its prior-year
  row.
\<close>

lemma get_annual_growth_steps:
  assumes res: "get_annual_growth df = Inr (Some g)"
    and an: "anchors df = [r0, r1]"
    and p0: "p0 \<in> set df" "qkey p0 = prior_key r0"
    and p1: "p1 \<in> set df" "qkey p1 = prior_key r1"
  shows "g = growth_step (Suc 0) r1 p1 (growth_step 0 r0 p0 init_growth)"
proof -
  let ?sd = "sort_desc fs_date df"
  have mem: "r0 \<in> set ?sd" "r1 \<in> set ?sd"
    using an in_set_takeD[of _ 2 ?sd] by (auto simp: anchors_def)
  from p0(1) p1(1) have pm: "p0 \<in> set ?sd" "p1 \<in> set ?sd"
    by (simp_all add: set_sort_desc)
  from res an have "growth_loop ?sd 0 [r0, r1] init_growth = Inr (Some g)"
    using get_annual_growth_loop[OF get_annual_growth_Some_length[OF res]] by simp
  from growth_loop_Cons_Some[OF this] obtain c0 q0 where
    l0: "loc ?sd (qkey r0) = Series c0" "loc ?sd (prior_key r0) = Series q0" and
    s0: "growth_loop ?sd (Suc 0) [r1] (growth_step 0 c0 q0 init_growth) = Inr (Some g)"
    by blast
  from growth_loop_Cons_Some[OF s0] obtain c1 q1 where
    l1: "loc ?sd (qkey r1) = Series c1" "loc ?sd (prior_key r1) = Series q1" and
    s1: "growth_loop ?sd (Suc (Suc 0)) []
           (growth_step (Suc 0) c1 q1 (growth_step 0 c0 q0 init_growth)) = Inr (Some g)"
    by blast
  have "c0 = r0" using l0(1) mem(1) by (rule loc_Series_member)
  moreover have "q0 = p0"
    using l0(2) pm(1) unfolding p0(2)[symmetric] by (rule loc_Series_member)
  moreover have "c1 = r1" using l1(1) mem(2) by (rule loc_Series_member)
  moreover have "q1 = p1"
    using l1(2) pm(2) unfolding p1(2)[symmetric] by (rule loc_Series_member)
  ultimately show ?thesis using s1 by simp
qed

lemma rev_growths_step:
  "rev_growths (growth_step i cur prv st)
     = rev_growths st @ rev_entry (revenue cur) (revenue prv)"
  by (simp add: growth_step_def Let_def)

lemma opm_growths_step:
  "opm_growths (growth_step i cur prv st)
     = opm_growths st @ opm_entry (op_margin cur) (op_margin prv)"
  by (simp add: growth_step_def Let_def)

text \<open>
  With the arithmetic of line 60 taken as exact: the growth lists returned are built by
  the loop body from each anchor row and its prior-year row. The body appends one revenue
  entry exactly when both revenues are numbers and the prior one is not zero, and one
  margin entry exactly when both margins are numbers above zero; otherwise the list is
  unchanged. The entry is \<open>100 * (curr - prev) / \<bar>prev\<bar>\<close>. The revenue list does not
  depend on the margins and the margin list does not depend on the revenues.
\<close>

lemma anchor_growth_entries:
  "(get_annual_growth df = Inr (Some g) \<and> anchors df = [r0, r1] \<and>
    p0 \<in> set df \<and> qkey p0 = prior_key r0 \<and> p1 \<in> set df \<and> qkey p1 = prior_key r1 \<longrightarrow>
      g = growth_step (Suc 0) r1 p1 (growth_step 0 r0 p0 init_growth)) \<and>
   ((\<exists>e. rev_growths (growth_step i cur prv st) = rev_growths st @ [e])
      \<longleftrightarrow> notna (revenue cur) \<and> notna (revenue prv) \<and> revenue prv \<noteq> Num 0) \<and>
   ((\<exists>e. opm_growths (growth_step i cur prv st) = opm_growths st @ [e])
      \<longleftrightarrow> notna (op_margin cur) \<and> notna (op_margin prv)
          \<and> flt (Num 0) (op_margin cur) \<and> flt (Num 0) (op_margin prv)) \<and>
   (rev_growths (growth_step i cur prv st) = rev_growths st
      \<or> (\<exists>e. rev_growths (growth_step i cur prv st) = rev_growths st @ [e])) \<and>
   (opm_growths (growth_step i cur prv st) = opm_growths st
      \<or> (\<exists>e. opm_growths (growth_step i cur prv st) = opm_growths st @ [e])) \<and>
   (revenue cur = Num c \<and> revenue prv = Num p \<and> p \<noteq> 0 \<longrightarrow>
      rev_growths (growth_step i cur prv st) = rev_growths st @ [100 * (c - p) / \<bar>p\<bar>]) \<and>
   (op_margin cur = Num mc \<and> op_margin prv = Num mp \<and> 0 < mc \<and> 0 < mp \<longrightarrow>
      opm_growths (growth_step i cur prv st) = opm_growths st @ [100 * (mc - mp) / \<bar>mp\<bar>]) \<and>
   rev_growths (growth_step i (cur\<lparr>op_margin := m1\<rparr>) (prv\<lparr>op_margin := m2\<rparr>) st)
      = rev_growths (growth_step i cur prv st) \<and>
   opm_growths (growth_step i (cur\<lparr>revenue := v1\<rparr>) (prv\<lparr>revenue := v2\<rparr>) st)
      = opm_growths (growth_step i cur prv st)"
proof -
  have a: "(\<exists>e. rev_entry x y = [e]) \<longleftrightarrow> notna x \<and> notna y \<and> y \<noteq> Num 0" for x y
    by (cases x; cases y) simp_all
  have b: "(\<exists>e. opm_entry x y = [e])
             \<longleftrightarrow> notna x \<and> notna y \<and> flt (Num 0) x \<and> flt (Num 0) y" for x y
    by (cases x; cases y) simp_all
  have c: "rev_entry x y = [] \<or> (\<exists>e. rev_entry x y = [e])" for x y
    by (cases x; cases y) simp_all
  have d: "opm_entry x y = [] \<or> (\<exists>e. opm_entry x y = [e])" for x y
    by (cases x; cases y) simp_all
  have whole: "get_annual_growth df = Inr (Some g) \<and> anchors df = [r0, r1] \<and>
    p0 \<in> set df \<and> qkey p0 = prior_key r0 \<and> p1 \<in> set df \<and> qkey p1 = prior_key r1 \<longrightarrow>
      g = growth_step (Suc 0) r1 p1 (growth_step 0 r0 p0 init_growth)"
    using get_annual_growth_steps by blast
  have steps: "((\<exists>e. rev_growths (growth_step i cur prv st) = rev_growths st @ [e])
      \<longleftrightarrow> notna (revenue cur) \<and> notna (revenue prv) \<and> revenue prv \<noteq> Num 0) \<and>
   ((\<exists>e. opm_growths (growth_step i cur prv st) = opm_growths st @ [e])
      \<longleftrightarrow> notna (op_margin cur) \<and> notna (op_margin prv)
          \<and> flt (Num 0) (op_margin cur) \<and> flt (Num 0) (op_margin prv)) \<and>
   (rev_growths (growth_step i cur prv st) = rev_growths st
      \<or> (\<exists>e. rev_growths (growth_step i cur prv st) = rev_growths st @ [e])) \<and>
   (opm_growths (growth_step i cur prv st) = opm_growths st
      \<or> (\<exists>e. opm_growths (growth_step i cur prv st) = opm_growths st @ [e])) \<and>
   (revenue cur = Num c \<and> revenue prv = Num p \<and> p \<noteq> 0 \<longrightarrow>
      rev_growths (growth_step i cur prv st) = rev_growths st @ [100 * (c - p) / \<bar>p\<bar>]) \<and>
   (op_margin cur = Num mc \<and> op_margin prv = Num mp \<and> 0 < mc \<and> 0 < mp \<longrightarrow>
      opm_growths (growth_step i cur prv st) = opm_growths st @ [100 * (mc - mp) / \<bar>mp\<bar>]) \<and>
   rev_growths (growth_step i (cur\<lparr>op_margin := m1\<rparr>) (prv\<lparr>op_margin := m2\<rparr>) st)
      = rev_growths (growth_step i cur prv st) \<and>
   opm_growths (growth_step i (cur\<lparr>revenue := v1\<rparr>) (prv\<lparr>revenue := v2\<rparr>) st)
      = opm_growths (growth_step i cur prv st)"
    using a[of "revenue cur" "revenue prv"] b[of "op_margin cur" "op_margin prv"]
      c[of "revenue cur" "revenue prv"] d[of "op_margin cur" "op_margin prv"]
    by (simp add: rev_growths_step opm_growths_step pct_growth_def)
  from whole steps show ?thesis by (rule conjI)
qed

lemma scenario_growth:
  "get_annual_growth scenario_df =
     Inr (Some \<lparr>rev_growths = [20, 200 / 9], opm_growths = [100 / 3, 80],
                recent_revenue = Some (Num 120), recent_op_margin = Some (Num 20)\<rparr>)"
  by (simp add: scenario_df_def model_defs)

text \<open>
  Claim C4. The code breaks the claim on large integers. For a revenue column of
  integers with 200000000000000000 in the anchor quarter and 100000000000000000 a year
  before, the growth is 100 percent. Line 60 computes \<^verbatim>\<open>100 * (curr - prev)\<close> on 64-bit
  integers: the product 10^19 wraps around to -8446744073709551616, the value appended is
  about -84.47, and it fails a threshold of 15 that the growth of the claim passes.
\<close>

theorem int64_growth_wraps:
  "sint (numerator_int64 200000000000000000 100000000000000000) = - 8446744073709551616 \<and>
   sint (abs_int64 100000000000000000) = 100000000000000000 \<and>
   pct_growth_int64 200000000000000000 100000000000000000
     = - 8446744073709551616 / 100000000000000000 \<and>
   pct_growth_int64 200000000000000000 100000000000000000 < - 84 \<and>
   \<not> fgt (Num (pct_growth_int64 200000000000000000 100000000000000000)) (Num 15) \<and>
   pct_growth 200000000000000000 100000000000000000 = 100 \<and>
   fgt (Num (pct_growth 200000000000000000 100000000000000000)) (Num 15)"
proof -
  have n: "sint (numerator_int64 200000000000000000 100000000000000000)
      = - 8446744073709551616"
    by (simp add: numerator_int64_def)
  have a: "sint (abs_int64 100000000000000000) = 100000000000000000"
    by (simp add: abs_int64_def)
  have q: "pct_growth_int64 200000000000000000 100000000000000000
     = - 8446744073709551616 / 100000000000000000"
    by (simp add: pct_growth_int64_def n a)
  have e: "pct_growth 200000000000000000 100000000000000000 = 100"
    by (simp add: pct_growth_def)
  from n a q e show ?thesis by (simp add: fgt_def)
qed

subsection \<open>The branch on the growth lists\<close>

lemma growth_ok_iff:
  "growth_ok thr gs \<longleftrightarrow> length gs = 2 \<and> (\<forall>g \<in> set gs. fgt (Num g) thr)"
  by (auto simp: growth_ok_def list_all_iff)

text \<open>
  Claim C1, as amended. The branch of lines 131 to 145 takes a metric as available when its
  list is not empty. With both lists non-empty the symbol passes exactly when both lists
  have two entries and every entry is above its threshold; with one list non-empty,
  exactly when that list has two entries, each above its threshold; with both empty it
  is skipped. When each list has no entry or two entries, this is the table of the
  specification.
\<close>

theorem growth_decision_table:
  "(revs \<noteq> [] \<and> opms \<noteq> [] \<longrightarrow>
      (growth_decision a revs opms = None \<longleftrightarrow>
         length revs = 2 \<and> length opms = 2 \<and>
         (\<forall>g \<in> set revs. fgt (Num g) (pergro_revenue a)) \<and>
         (\<forall>g \<in> set opms. fgt (Num g) (pergro_op_margin a)))) \<and>
   (revs \<noteq> [] \<and> opms = [] \<longrightarrow>
      (growth_decision a revs opms = None \<longleftrightarrow>
         length revs = 2 \<and> (\<forall>g \<in> set revs. fgt (Num g) (pergro_revenue a)))) \<and>
   (revs = [] \<and> opms \<noteq> [] \<longrightarrow>
      (growth_decision a revs opms = None \<longleftrightarrow>
         length opms = 2 \<and> (\<forall>g \<in> set opms. fgt (Num g) (pergro_op_margin a)))) \<and>
   (revs = [] \<and> opms = [] \<longrightarrow> growth_decision a revs opms = Some NeitherAvailable) \<and>
   (length revs \<in> {0, 2} \<and> length opms \<in> {0, 2} \<longrightarrow>
      (growth_decision a revs opms = None) = spec_table_accept a revs opms)"
proof -
  have p1: "revs \<noteq> [] \<and> opms \<noteq> [] \<longrightarrow>
      (growth_decision a revs opms = None \<longleftrightarrow>
         length revs = 2 \<and> length opms = 2 \<and>
         (\<forall>g \<in> set revs. fgt (Num g) (pergro_revenue a)) \<and>
         (\<forall>g \<in> set opms. fgt (Num g) (pergro_op_margin a)))"
    by (auto simp: growth_decision_def growth_ok_iff Let_def)
  have p2: "revs \<noteq> [] \<and> opms = [] \<longrightarrow>
      (growth_decision a revs opms = None \<longleftrightarrow>
         length revs = 2 \<and> (\<forall>g \<in> set revs. fgt (Num g) (pergro_revenue a)))"
    by (auto simp: growth_decision_def growth_ok_iff Let_def)
  have p3: "revs = [] \<and> opms \<noteq> [] \<longrightarrow>
      (growth_decision a revs opms = None \<longleftrightarrow>
         length opms = 2 \<and> (\<forall>g \<in> set opms. fgt (Num g) (pergro_op_margin a)))"
    by (auto simp: growth_decision_def growth_ok_iff Let_def)
  have p4: "revs = [] \<and> opms = [] \<longrightarrow> growth_decision a revs opms = Some NeitherAvailable"
    by (simp add: growth_decision_def Let_def)
  have p5: "length revs \<in> {0, 2} \<and> length opms \<in> {0, 2} \<longrightarrow>
      (growth_decision a revs opms = None) = spec_table_accept a revs opms"
    by (auto simp: growth_decision_def growth_ok_iff spec_table_accept_def Let_def
        list_all_iff)
  from p1 p2 p3 p4 p5 show ?thesis by blast
qed

theorem growth_decision_table_witness:
  "growth_decision (mk_args 15 20 5 0 0) [20, 200 / 9] [100 / 3, 80] = None \<and>
   spec_table_accept (mk_args 15 20 5 0 0) [20, 200 / 9] [100 / 3, 80] \<and>
   growth_decision (mk_args 15 20 5 0 0) [20, 200 / 9] [] = None \<and>
   growth_decision (mk_args 15 20 5 0 0) [] [100 / 3, 10] = Some OnlyOpMarginFailed \<and>
   growth_decision (mk_args 15 20 5 0 0) [] [] = Some NeitherAvailable"
proof -
  have e: "growth_decision (mk_args 15 20 5 0 0) [] [100 / 3, 10] = Some OnlyOpMarginFailed"
    by (simp add: main_defs)
  have both: "([20, 200 / 9] :: real list) \<noteq> [] \<and> ([100 / 3, 80] :: real list) \<noteq> []"
    and lens: "length ([20, 200 / 9] :: real list) = 2"
      "length ([100 / 3, 80] :: real list) = 2"
    and ab: "fgt (Num 20) (pergro_revenue (mk_args 15 20 5 0 0))"
      "fgt (Num (200 / 9)) (pergro_revenue (mk_args 15 20 5 0 0))"
      "fgt (Num (100 / 3)) (pergro_op_margin (mk_args 15 20 5 0 0))"
      "fgt (Num 80) (pergro_op_margin (mk_args 15 20 5 0 0))"
    by (simp_all add: mk_args_def fgt_def)
  note t = growth_decision_table[of "[20, 200 / 9]" "[100 / 3, 80]" "mk_args 15 20 5 0 0"]
  from t both lens ab
  have c1: "growth_decision (mk_args 15 20 5 0 0) [20, 200 / 9] [100 / 3, 80] = None"
    by simp
  have len02: "length ([20, 200 / 9] :: real list) \<in> {0, 2} \<and>
      length ([100 / 3, 80] :: real list) \<in> {0, 2}"
    by simp
  from t[THEN conjunct2, THEN conjunct2, THEN conjunct2, THEN conjunct2, THEN mp, OF len02] c1
  have c5: "spec_table_accept (mk_args 15 20 5 0 0) [20, 200 / 9] [100 / 3, 80]"
    by blast
  from growth_decision_table[of "[20, 200 / 9]" "[]" "mk_args 15 20 5 0 0"] lens ab
  have c2: "growth_decision (mk_args 15 20 5 0 0) [20, 200 / 9] [] = None"
    by simp
  from growth_decision_table[of "[]" "[]" "mk_args 15 20 5 0 0"]
  have c4: "growth_decision (mk_args 15 20 5 0 0) [] [] = Some NeitherAvailable"
    by simp
  from c1 c5 c2 e c4 show ?thesis by blast
qed

lemma partial_growth:
  "get_annual_growth partial_df =
     Inr (Some \<lparr>rev_growths = [20], opm_growths = [100 / 3, 80],
                recent_revenue = Some (Num 120), recent_op_margin = Some (Num 20)\<rparr>)"
  by (simp add: partial_df_def model_defs)

text \<open>
  The claim as stated fails when one metric was computed for one anchor only: revenue
  growth has one entry, so it is not available in the claim's sense, and margin growth
  has two entries above the threshold; the table of the claim accepts, the code skips.
\<close>

theorem growth_decision_counterexample:
  "get_annual_growth partial_df =
     Inr (Some \<lparr>rev_growths = [20], opm_growths = [100 / 3, 80],
                recent_revenue = Some (Num 120), recent_op_margin = Some (Num 20)\<rparr>) \<and>
   spec_table_accept (mk_args 15 20 5 0 0) [20] [100 / 3, 80] \<and>
   growth_decision (mk_args 15 20 5 0 0) [20] [100 / 3, 80] = Some BothAvailableFailed \<and>
   process_symbol (mk_args 15 20 5 0 0) (mk_input ''A'' partial_df scenario_ms)
     = Inl BothAvailableFailed"
  by (simp add: partial_growth main_defs spec_table_accept_def)

subsection \<open>The floors\<close>

lemma below_limit_iff:
  "below_limit v l \<longleftrightarrow> (\<exists>x y. v = Some (Num x) \<and> l = Num y \<and> x < y)"
proof (cases v)
  case None
  then show ?thesis by (simp add: below_limit_def)
next
  case (Some w)
  then show ?thesis by (cases w; cases l) (simp_all add: below_limit_def)
qed

text \<open>
  Claim C5. A most recent revenue that is a number below the revenue limit skips the
  symbol; otherwise a most recent margin that is a number below the margin limit skips
  it, the margin compared as it is, also when negative. Both tests come before the branch
  on the growth lists: their outcome does not depend on the lists, and only when neither
  skips the symbol is the outcome that of the branch.
\<close>

theorem floors_before_growth:
  "(recent_revenue g = Some (Num r) \<and> revenue_limit a = Num l \<and> r < l \<longrightarrow>
      threshold_filter a g = Some RevenueBelowLimit) \<and>
   (\<not> (\<exists>r l. recent_revenue g = Some (Num r) \<and> revenue_limit a = Num l \<and> r < l) \<and>
    recent_op_margin g = Some (Num m) \<and> op_margin_limit a = Num k \<and> m < k \<longrightarrow>
      threshold_filter a g = Some OpMarginBelowLimit) \<and>
   (\<not> (\<exists>r l. recent_revenue g = Some (Num r) \<and> revenue_limit a = Num l \<and> r < l) \<and>
    \<not> (\<exists>m k. recent_op_margin g = Some (Num m) \<and> op_margin_limit a = Num k \<and> m < k) \<longrightarrow>
      threshold_filter a g = growth_decision a (rev_growths g) (opm_growths g))"
proof (intro conjI impI)
  assume "recent_revenue g = Some (Num r) \<and> revenue_limit a = Num l \<and> r < l"
  then have "below_limit (recent_revenue g) (revenue_limit a)"
    by (simp add: below_limit_iff)
  then show "threshold_filter a g = Some RevenueBelowLimit"
    by (simp add: threshold_filter_def)
next
  assume h: "\<not> (\<exists>r l. recent_revenue g = Some (Num r) \<and> revenue_limit a = Num l \<and> r < l) \<and>
    recent_op_margin g = Some (Num m) \<and> op_margin_limit a = Num k \<and> m < k"
  then have "\<not> below_limit (recent_revenue g) (revenue_limit a)"
    by (simp add: below_limit_iff)
  moreover from h have "below_limit (recent_op_margin g) (op_margin_limit a)"
    by (simp add: below_limit_iff)
  ultimately show "threshold_filter a g = Some OpMarginBelowLimit"
    by (simp add: threshold_filter_def)
next
  assume h: "\<not> (\<exists>r l. recent_revenue g = Some (Num r) \<and> revenue_limit a = Num l \<and> r < l) \<and>
    \<not> (\<exists>m k. recent_op_margin g = Some (Num m) \<and> op_margin_limit a = Num k \<and> m < k)"
  then have "\<not> below_limit (recent_revenue g) (revenue_limit a)"
    and "\<not> below_limit (recent_op_margin g) (op_margin_limit a)"
    by (simp_all add: below_limit_iff)
  then show "threshold_filter a g = growth_decision a (rev_growths g) (opm_growths g)"
    by (simp add: threshold_filter_def)
qed

theorem floors_before_growth_witness:
  "threshold_filter (mk_args 15 20 5 100 0) (mk_growth [20, 30] [40, 50] (Num 50) (Num 10))
     = Some RevenueBelowLimit \<and>
   threshold_filter (mk_args 15 20 5 100 0) (mk_growth [20, 30] [40, 50] (Num 200) (Num (- 5)))
     = Some OpMarginBelowLimit \<and>
   threshold_filter (mk_args 15 20 5 100 (- 10))
     (mk_growth [20, 30] [40, 50] (Num 200) (Num (- 5))) = None"
proof -
  have h1: "recent_revenue (mk_growth [20, 30] [40, 50] (Num 50) (Num 10)) = Some (Num 50) \<and>
      revenue_limit (mk_args 15 20 5 100 0) = Num 100 \<and> (50::real) < 100"
    by (simp add: mk_growth_def mk_args_def)
  have h2: "\<not> (\<exists>r l. recent_revenue (mk_growth [20, 30] [40, 50] (Num 200) (Num (- 5)))
                  = Some (Num r) \<and>
                revenue_limit (mk_args 15 20 5 100 0) = Num l \<and> r < l) \<and>
      recent_op_margin (mk_growth [20, 30] [40, 50] (Num 200) (Num (- 5))) = Some (Num (- 5)) \<and>
      op_margin_limit (mk_args 15 20 5 100 0) = Num 0 \<and> (- 5::real) < 0"
    by (simp add: mk_growth_def mk_args_def)
  have h3: "\<not> (\<exists>r l. recent_revenue (mk_growth [20, 30] [40, 50] (Num 200) (Num (- 5)))
                  = Some (Num r) \<and>
                revenue_limit (mk_args 15 20 5 100 (- 10)) = Num l \<and> r < l) \<and>
      \<not> (\<exists>m k. recent_op_margin (mk_growth [20, 30] [40, 50] (Num 200) (Num (- 5)))
                  = Some (Num m) \<and>
                op_margin_limit (mk_args 15 20 5 100 (- 10)) = Num k \<and> m < k)"
    by (simp add: mk_growth_def mk_args_def)
  have d: "growth_decision (mk_args 15 20 5 100 (- 10))
      (rev_growths (mk_growth [20, 30] [40, 50] (Num 200) (Num (- 5))))
      (opm_growths (mk_growth [20, 30] [40, 50] (Num 200) (Num (- 5)))) = None"
    by (simp add: mk_growth_def main_defs)
  note c1 = floors_before_growth[THEN conjunct1, THEN mp, OF h1]
  note c2 = floors_before_growth[THEN conjunct2, THEN conjunct1, THEN mp, OF h2]
  note c3 = floors_before_growth[THEN conjunct2, THEN conjunct2, THEN mp, OF h3]
  from c1 c2 c3 d show ?thesis by simp
qed

subsection \<open>A most recent value that is NaN\<close>

lemma growth_loop_recent:
  "growth_loop df i rows st = Inr (Some g) \<Longrightarrow> 0 < i \<Longrightarrow>
     recent_revenue g = recent_revenue st \<and> recent_op_margin g = recent_op_margin st"
proof (induction rows arbitrary: i st)
  case Nil
  then show ?case by simp
next
  case (Cons r rows)
  from growth_loop_Cons_Some[OF Cons.prems(1)] obtain cur prv where
    step: "growth_loop df (Suc i) rows (growth_step i cur prv st) = Inr (Some g)"
    by blast
  from Cons.IH[OF step] Cons.prems(2) show ?case
    by (simp add: growth_step_def Let_def)
qed

lemma growth_loop_first:
  assumes "growth_loop df 0 (r # rows) st = Inr (Some g)" and "r \<in> set df"
  shows "recent_revenue g = Some (revenue r) \<and> recent_op_margin g = Some (op_margin r)"
proof -
  from growth_loop_Cons_Some[OF assms(1)] obtain cur prv where
    c: "loc df (qkey r) = Series cur" and
    step: "growth_loop df (Suc 0) rows (growth_step 0 cur prv st) = Inr (Some g)"
    by blast
  from loc_Series_member[OF c assms(2)] have "cur = r" .
  with growth_loop_recent[OF step] show ?thesis
    by (simp add: growth_step_def Let_def)
qed

text \<open>The most recent values returned are those of the row with the latest date.\<close>

lemma get_annual_growth_recent:
  assumes "get_annual_growth df = Inr (Some g)"
  shows "recent_revenue g = Some (revenue (hd (anchors df))) \<and>
         recent_op_margin g = Some (op_margin (hd (anchors df)))"
proof -
  let ?sd = "sort_desc fs_date df"
  note len = get_annual_growth_Some_length[OF assms]
  then have "2 \<le> length ?sd" by (simp add: length_sort_desc)
  then obtain r0 rest where sd: "?sd = r0 # rest"
    by (cases ?sd) simp_all
  then have an: "anchors df = r0 # take 1 rest"
    by (simp add: anchors_def numeral_2_eq_2)
  from sd have mem: "r0 \<in> set ?sd" by simp
  from assms len have "growth_loop ?sd 0 (anchors df) init_growth = Inr (Some g)"
    by (simp add: get_annual_growth_loop)
  with an have "growth_loop ?sd 0 (r0 # take 1 rest) init_growth = Inr (Some g)" by simp
  from growth_loop_first[OF this mem] an show ?thesis by simp
qed

text \<open>
  Claim C10. The most recent values handed to the floors are the revenue and the margin
  of the row with the latest date. When that revenue is NaN the revenue floor never skips
  the symbol, whatever the limit is; likewise for the margin. When both are NaN the
  outcome is that of the branch on the growth lists.
\<close>

theorem nan_recent_value_passes_floor:
  assumes "get_annual_growth df = Inr (Some g)"
  shows "recent_revenue g = Some (revenue (hd (anchors df))) \<and>
    recent_op_margin g = Some (op_margin (hd (anchors df))) \<and>
    (revenue (hd (anchors df)) = NaN \<longrightarrow>
       threshold_filter a g \<noteq> Some RevenueBelowLimit \<and>
       threshold_filter (a\<lparr>revenue_limit := l\<rparr>) g = threshold_filter a g) \<and>
    (op_margin (hd (anchors df)) = NaN \<longrightarrow>
       threshold_filter a g \<noteq> Some OpMarginBelowLimit \<and>
       threshold_filter (a\<lparr>op_margin_limit := l\<rparr>) g = threshold_filter a g) \<and>
    (revenue (hd (anchors df)) = NaN \<and> op_margin (hd (anchors df)) = NaN \<longrightarrow>
       threshold_filter a g = growth_decision a (rev_growths g) (opm_growths g))"
proof -
  note rc = get_annual_growth_recent[OF assms]
  have nan: "\<not> below_limit (Some NaN) x" for x
    by (simp add: below_limit_def)
  have gd: "growth_decision a revs opms \<noteq> Some RevenueBelowLimit \<and>
      growth_decision a revs opms \<noteq> Some OpMarginBelowLimit \<and>
      growth_decision (a\<lparr>revenue_limit := l\<rparr>) revs opms = growth_decision a revs opms \<and>
      growth_decision (a\<lparr>op_margin_limit := l\<rparr>) revs opms = growth_decision a revs opms"
    for revs opms
    by (simp add: growth_decision_def Let_def)
  have r: "threshold_filter a g \<noteq> Some RevenueBelowLimit \<and>
       threshold_filter (a\<lparr>revenue_limit := l\<rparr>) g = threshold_filter a g"
    if "revenue (hd (anchors df)) = NaN"
    using that rc gd[of "rev_growths g" "opm_growths g"]
    by (simp add: threshold_filter_def nan)
  have m: "threshold_filter a g \<noteq> Some OpMarginBelowLimit \<and>
       threshold_filter (a\<lparr>op_margin_limit := l\<rparr>) g = threshold_filter a g"
    if "op_margin (hd (anchors df)) = NaN"
    using that rc gd[of "rev_growths g" "opm_growths g"]
    by (simp add: threshold_filter_def nan)
  have b: "threshold_filter a g = growth_decision a (rev_growths g) (opm_growths g)"
    if "revenue (hd (anchors df)) = NaN \<and> op_margin (hd (anchors df)) = NaN"
    using that rc by (simp add: threshold_filter_def nan)
  from rc r m b show ?thesis by blast
qed

lemma nan_recent_growth:
  "get_annual_growth nan_recent_df =
     Inr (Some (mk_growth [] [200, 100] NaN (Num 30000000000)))"
  by (simp add: nan_recent_df_def mk_growth_def model_defs)

lemma nan_both_growth:
  "get_annual_growth nan_both_df = Inr (Some (mk_growth [200 / 9] [80] NaN NaN))"
  by (simp add: nan_both_df_def mk_growth_def model_defs)

theorem nan_recent_value_passes_floor_witness:
  "get_annual_growth nan_recent_df =
     Inr (Some (mk_growth [] [200, 100] NaN (Num 30000000000))) \<and>
   revenue (hd (anchors nan_recent_df)) = NaN \<and>
   threshold_filter (mk_args 15 20 5 100000000000 10000000000)
     (mk_growth [] [200, 100] NaN (Num 30000000000)) \<noteq> Some RevenueBelowLimit \<and>
   threshold_filter (mk_args 15 20 5 100000000000 10000000000)
     (mk_growth [] [200, 100] NaN (Num 30000000000)) = None \<and>
   get_annual_growth nan_both_df = Inr (Some (mk_growth [200 / 9] [80] NaN NaN)) \<and>
   revenue (hd (anchors nan_both_df)) = NaN \<and>
   op_margin (hd (anchors nan_both_df)) = NaN \<and>
   threshold_filter (mk_args 15 20 5 100000000000 10000000000)
     (mk_growth [200 / 9] [80] NaN NaN) = Some BothAvailableFailed"
proof -
  have h1: "revenue (hd (anchors nan_recent_df)) = NaN"
    by (simp add: nan_recent_df_def model_defs)
  have h2: "revenue (hd (anchors nan_both_df)) = NaN \<and> op_margin (hd (anchors nan_both_df)) = NaN"
    by (simp add: nan_both_df_def model_defs)
  note t1 = nan_recent_value_passes_floor[OF nan_recent_growth,
      of "mk_args 15 20 5 100000000000 10000000000"]
  note t2 = nan_recent_value_passes_floor[OF nan_both_growth,
      of "mk_args 15 20 5 100000000000 10000000000"]
  from t1[THEN conjunct2, THEN conjunct2, THEN conjunct1, THEN mp, OF h1]
  have c1: "threshold_filter (mk_args 15 20 5 100000000000 10000000000)
     (mk_growth [] [200, 100] NaN (Num 30000000000)) \<noteq> Some RevenueBelowLimit"
    by (rule conjunct1)
  have c2: "threshold_filter (mk_args 15 20 5 100000000000 10000000000)
     (mk_growth [] [200, 100] NaN (Num 30000000000)) = None"
    by (simp add: mk_growth_def main_defs)
  have d: "growth_decision (mk_args 15 20 5 100000000000 10000000000)
      (rev_growths (mk_growth [200 / 9] [80] NaN NaN))
      (opm_growths (mk_growth [200 / 9] [80] NaN NaN)) = Some BothAvailableFailed"
    by (simp add: mk_growth_def main_defs)
  from t2[THEN conjunct2, THEN conjunct2, THEN conjunct2, THEN conjunct2, THEN mp, OF h2] d
  have c3: "threshold_filter (mk_args 15 20 5 100000000000 10000000000)
     (mk_growth [200 / 9] [80] NaN NaN) = Some BothAvailableFailed"
    by simp
  from nan_recent_growth nan_both_growth h1 h2 c1 c2 c3 show ?thesis by blast
qed

subsection \<open>The scenario of four quarters\<close>

text \<open>
  Claim C7. For the quarters 2024Q2 (120, 20), 2023Q2 (100, 15), 2024Q1 (110, 18) and
  2023Q1 (90, 10) the revenue growths are 20 and 200/9, printed 20.00 and 22.22, and the
  margin growths are 100/3 and 80, printed 33.33 and 80.00. With thresholds 15 and 20
  and both limits 0 every entry is above its threshold and the symbol is accepted; with
  margin threshold 50 the symbol is skipped in the branch where both lists are non-empty.
\<close>

theorem scenario_accept_and_reject:
  "get_annual_growth scenario_df =
     Inr (Some (mk_growth [20, 200 / 9] [100 / 3, 80] (Num 120) (Num 20))) \<and>
   map (\<lambda>g. fmt_hundredths (Num g))
     (rev_growths (mk_growth [20, 200 / 9] [100 / 3, 80] (Num 120) (Num 20)))
     = [Some 2000, Some 2222] \<and>
   map (\<lambda>g. fmt_hundredths (Num g))
     (opm_growths (mk_growth [20, 200 / 9] [100 / 3, 80] (Num 120) (Num 20)))
     = [Some 3333, Some 8000] \<and>
   list_all (\<lambda>g. fgt (Num g) (Num 15)) [20, 200 / 9] \<and>
   list_all (\<lambda>g. fgt (Num g) (Num 20)) [100 / 3, 80] \<and>
   threshold_filter (mk_args 15 20 n 0 0)
     (mk_growth [20, 200 / 9] [100 / 3, 80] (Num 120) (Num 20)) = None \<and>
   process_symbol (mk_args 15 20 n 0 0) (mk_input ''A'' scenario_df scenario_ms)
     = Inr \<lparr>r_symbol = ''A'', rev_g1 = Num 20, rev_g2 = Num (200 / 9),
            opm_g1 = Num (100 / 3), opm_g2 = Num 80, r_market_cap = PNum (Num 50000000000)\<rparr> \<and>
   \<not> fgt (Num (100 / 3)) (Num 50) \<and>
   threshold_filter (mk_args 15 50 n 0 0)
     (mk_growth [20, 200 / 9] [100 / 3, 80] (Num 120) (Num 20)) = Some BothAvailableFailed \<and>
   process_symbol (mk_args 15 50 n 0 0) (mk_input ''A'' scenario_df scenario_ms)
     = Inl BothAvailableFailed"
proof -
  have g: "get_annual_growth scenario_df =
     Inr (Some (mk_growth [20, 200 / 9] [100 / 3, 80] (Num 120) (Num 20)))"
    by (simp add: scenario_growth mk_growth_def)
  have f: "map (\<lambda>g. fmt_hundredths (Num g))
     (rev_growths (mk_growth [20, 200 / 9] [100 / 3, 80] (Num 120) (Num 20)))
     = [Some 2000, Some 2222]"
    "map (\<lambda>g. fmt_hundredths (Num g))
     (opm_growths (mk_growth [20, 200 / 9] [100 / 3, 80] (Num 120) (Num 20)))
     = [Some 3333, Some 8000]"
    by (simp_all add: mk_growth_def fmt_hundredths_def round_def)
  have t: "list_all (\<lambda>g. fgt (Num g) (Num 15)) [20, 200 / 9]"
    "list_all (\<lambda>g. fgt (Num g) (Num 20)) [100 / 3, 80]"
    "\<not> fgt (Num (100 / 3)) (Num 50)"
    by (simp_all add: fgt_def)
  have a: "threshold_filter (mk_args 15 20 n 0 0)
     (mk_growth [20, 200 / 9] [100 / 3, 80] (Num 120) (Num 20)) = None"
    "threshold_filter (mk_args 15 50 n 0 0)
     (mk_growth [20, 200 / 9] [100 / 3, 80] (Num 120) (Num 20)) = Some BothAvailableFailed"
    by (simp_all add: mk_growth_def main_defs)
  have p: "process_symbol (mk_args 15 20 n 0 0) (mk_input ''A'' scenario_df scenario_ms)
     = Inr \<lparr>r_symbol = ''A'', rev_g1 = Num 20, rev_g2 = Num (200 / 9),
            opm_g1 = Num (100 / 3), opm_g2 = Num 80, r_market_cap = PNum (Num 50000000000)\<rparr>"
    "process_symbol (mk_args 15 50 n 0 0) (mk_input ''A'' scenario_df scenario_ms)
     = Inl BothAvailableFailed"
    by (simp_all add: scenario_growth main_defs scenario_ms_def sort_desc_def)
  from g f t a p show ?thesis by simp
qed

subsection \<open>Ranking\<close>

lemma set_slice_to: "set (slice_to xs n) \<subseteq> set xs"
  by (auto simp: slice_to_def dest: in_set_takeD)

lemma number_not_str: "is_number k \<Longrightarrow> \<not> is_str k"
  by (cases k) simp_all

lemma list_sort_numbers:
  assumes "list_all (\<lambda>x. is_number (key x)) xs"
  shows "list_sort key xs = Returns (sort_key (\<lambda>x. num_of (key x)) xs)"
proof (cases "length xs < 2")
  case True
  then consider "xs = []" | x where "xs = [x]"
    by (cases xs; cases "tl xs") auto
  then show ?thesis
    by cases (simp_all add: list_sort_def)
next
  case False
  then obtain x where x: "x \<in> set xs" by (cases xs) auto
  from assms have num: "\<forall>k \<in> set (map key xs). is_number k"
    by (auto simp: list_all_iff)
  then have nostr: "\<not> list_ex is_str (map key xs)"
    by (auto simp: list_ex_iff dest: number_not_str)
  from x num have "\<not> list_all is_str (map key xs)"
    by (auto simp: list_all_iff dest: number_not_str)
  moreover from num have "list_all is_number (map key xs)"
    by (simp add: list_all_iff)
  ultimately show ?thesis
    using False nostr by (simp add: list_sort_def Let_def)
qed

text \<open>
  When every market cap is a number, the rows printed are a prefix of the collected rows
  sorted by market cap: they ascend, rows of equal market cap keep the order in which
  they were collected, and for a count \<open>n \<ge> 0\<close> there are \<open>min n (number of rows)\<close>
  of them.
\<close>

lemma rank_numbers:
  assumes "list_all (\<lambda>r. is_number (r_market_cap r)) rs"
  shows "\<exists>out. rank rs n = Returns out \<and>
    out = slice_to (sort_key (\<lambda>r. num_of (r_market_cap r)) rs) n \<and>
    sorted (map (\<lambda>r. num_of (r_market_cap r)) out) \<and>
    (\<forall>k. filter (\<lambda>r. num_of (r_market_cap r) = k) (sort_key (\<lambda>r. num_of (r_market_cap r)) rs)
         = filter (\<lambda>r. num_of (r_market_cap r) = k) rs) \<and>
    (0 \<le> n \<longrightarrow> out = take (nat n) (sort_key (\<lambda>r. num_of (r_market_cap r)) rs) \<and>
               length out = min (nat n) (length rs))"
proof -
  let ?f = "\<lambda>r. num_of (r_market_cap r)"
  have r: "rank rs n = Returns (slice_to (sort_key ?f rs) n)"
    by (simp add: rank_def list_sort_numbers[OF assms])
  have s: "sorted (map ?f (take m (sort_key ?f rs)))" for m
    by (simp add: take_map[symmetric] sorted_wrt_take)
  have st: "filter (\<lambda>r. ?f r = k) (sort_key ?f rs) = filter (\<lambda>r. ?f r = k) rs" for k
    by (rule sort_key_stable)
  show ?thesis
    using r s st by (auto simp: slice_to_def)
qed

text \<open>
  Claim C6. The code breaks the claim on a NaN market cap. Three symbols are accepted
  with the latest market caps 5, NaN (an empty cell) and 3. No key is less than the key
  before it, so the sort of line 160 leaves the rows as they are: the rows printed do not
  ascend, and with the count 2 the row of the smallest market cap is the one cut. A
  negative count is no better served: the slice of line 163 then keeps all rows but the
  last ones, and two rows with the count -1 print one row.
\<close>

theorem rank_nan_market_cap_unsorted:
  "collect (mk_args 15 20 2 0 0)
     [mk_input ''A'' scenario_df (mk_ms (PNum (Num 5))),
      mk_input ''B'' scenario_df (mk_ms (PNum NaN)),
      mk_input ''C'' scenario_df (mk_ms (PNum (Num 3)))]
     = map (\<lambda>r. make_row (r_symbol r) (mk_growth [20, 200 / 9] [100 / 3, 80] (Num 120) (Num 20))
                  (r_market_cap r)) nan_cap_rows \<and>
   rank nan_cap_rows 3 = Returns nan_cap_rows \<and>
   rank nan_cap_rows 2 = Returns [mk_row ''A'' (PNum (Num 5)), mk_row ''B'' (PNum NaN)] \<and>
   py_lt (PNum (Num 3)) (PNum (Num 5)) = Inr True \<and>
   main (mk_args 15 20 2 0 0)
     [mk_input ''A'' scenario_df (mk_ms (PNum (Num 5))),
      mk_input ''B'' scenario_df (mk_ms (PNum NaN)),
      mk_input ''C'' scenario_df (mk_ms (PNum (Num 3)))]
     = Returns
        [make_row ''A'' (mk_growth [20, 200 / 9] [100 / 3, 80] (Num 120) (Num 20))
           (PNum (Num 5)),
         make_row ''B'' (mk_growth [20, 200 / 9] [100 / 3, 80] (Num 120) (Num 20))
           (PNum NaN)] \<and>
   rank [mk_row ''A'' (PNum (Num 50000000000)), mk_row ''B'' (PNum (Num 20000000000))] (- 1)
     = Returns [mk_row ''B'' (PNum (Num 20000000000))]"
proof -
  have p: "process_symbol (mk_args 15 20 2 0 0) (mk_input name scenario_df (mk_ms mc))
      = Inr (make_row name (mk_growth [20, 200 / 9] [100 / 3, 80] (Num 120) (Num 20)) mc)"
    for name mc
    by (simp add: scenario_growth main_defs mk_growth_def mk_ms_def sort_desc_def)
  have c: "collect (mk_args 15 20 2 0 0)
     [mk_input ''A'' scenario_df (mk_ms (PNum (Num 5))),
      mk_input ''B'' scenario_df (mk_ms (PNum NaN)),
      mk_input ''C'' scenario_df (mk_ms (PNum (Num 3)))]
     = map (\<lambda>r. make_row (r_symbol r) (mk_growth [20, 200 / 9] [100 / 3, 80] (Num 120) (Num 20))
                  (r_market_cap r)) nan_cap_rows"
    by (simp add: p nan_cap_rows_def mk_row_def)
  have r3: "rank nan_cap_rows 3 = Returns nan_cap_rows"
    and r2: "rank nan_cap_rows 2
      = Returns [mk_row ''A'' (PNum (Num 5)), mk_row ''B'' (PNum NaN)]"
    by (simp_all add: rank_def list_sort_def slice_to_def nan_cap_rows_def mk_row_def)
  have l: "py_lt (PNum (Num 3)) (PNum (Num 5)) = Inr True"
    by simp
  have nr: "num_result (mk_args 15 20 2 0 0) = 2"
    by (simp add: mk_args_def)
  have m: "main (mk_args 15 20 2 0 0)
     [mk_input ''A'' scenario_df (mk_ms (PNum (Num 5))),
      mk_input ''B'' scenario_df (mk_ms (PNum NaN)),
      mk_input ''C'' scenario_df (mk_ms (PNum (Num 3)))]
     = Returns
        [make_row ''A'' (mk_growth [20, 200 / 9] [100 / 3, 80] (Num 120) (Num 20))
           (PNum (Num 5)),
         make_row ''B'' (mk_growth [20, 200 / 9] [100 / 3, 80] (Num 120) (Num 20))
           (PNum NaN)]"
    by (simp add: main_def p nr rank_def list_sort_def slice_to_def print_rows_def make_row_def)
  have n: "rank [mk_row ''A'' (PNum (Num 50000000000)), mk_row ''B'' (PNum (Num 20000000000))]
      (- 1) = Returns [mk_row ''B'' (PNum (Num 20000000000))]"
    by (simp add: rank_def list_sort_def slice_to_def mk_row_def)
  from c r3 r2 l m n show ?thesis by simp
qed

subsection \<open>The order of the steps for one symbol\<close>

text \<open>
  Claim C8, as amended. For each symbol the loop body first tests that the market-cap
  file exists and skips the symbol with the reason of the missing market cap otherwise.
  With both files read, it runs \<^verbatim>\<open>get_annual_growth\<close> and skips on the triple of None;
  then the floors and the growth branch, skipping with their reason; and only for a
  symbol that passed both it takes the most recent market cap and appends the row. A
  market-cap table without rows makes that last step raise, and the symbol is skipped.
\<close>

theorem process_symbol_order:
  "(\<not> ms_exists s \<longrightarrow> process_symbol a s = Inl MarketCapNotFound) \<and>
   (ms_exists s \<and> fs_read s = Some fs \<and> ms_read s = Some ms \<longrightarrow>
      (get_annual_growth fs = Inr None \<longrightarrow> process_symbol a s = Inl InsufficientData) \<and>
      (get_annual_growth fs = Inr (Some g) \<and> threshold_filter a g = Some reason \<longrightarrow>
         process_symbol a s = Inl reason) \<and>
      (get_annual_growth fs = Inr (Some g) \<and> threshold_filter a g = None \<longrightarrow>
         (get_latest_market_cap ms = Inr mc \<longrightarrow>
            process_symbol a s = Inr (make_row (symbol s) g mc)) \<and>
         (ms = [] \<longrightarrow> process_symbol a s = Inl (ProcessingError IndexError))))"
  by (simp add: process_symbol_def get_latest_market_cap_def sort_desc_def)

theorem process_symbol_order_witness:
  "\<not> ms_exists no_ms_input \<and>
   process_symbol (mk_args 15 20 5 0 0) no_ms_input = Inl MarketCapNotFound \<and>
   process_symbol (mk_args 15 20 5 0 0) (mk_input ''A'' missing_prior_df scenario_ms)
     = Inl InsufficientData \<and>
   process_symbol (mk_args 15 20 5 500 0) (mk_input ''A'' scenario_df scenario_ms)
     = Inl RevenueBelowLimit \<and>
   process_symbol (mk_args 15 20 5 0 0) (mk_input ''A'' scenario_df scenario_ms)
     = Inr (make_row ''A'' (mk_growth [20, 200 / 9] [100 / 3, 80] (Num 120) (Num 20))
             (PNum (Num 50000000000))) \<and>
   process_symbol (mk_args 15 20 5 0 0) (mk_input ''A'' scenario_df [])
     = Inl (ProcessingError IndexError)"
proof -
  have g: "get_annual_growth scenario_df =
     Inr (Some (mk_growth [20, 200 / 9] [100 / 3, 80] (Num 120) (Num 20)))"
    by (simp add: scenario_growth mk_growth_def)
  have nd: "get_annual_growth missing_prior_df = Inr None"
    by (simp add: missing_prior_df_def model_defs)
  have h0: "\<not> ms_exists no_ms_input"
    by (simp add: no_ms_input_def)
  have hi: "ms_exists (mk_input ''A'' df ms) \<and> fs_read (mk_input ''A'' df ms) = Some df \<and>
      ms_read (mk_input ''A'' df ms) = Some ms" for df ms
    by (simp add: mk_input_def)
  have sy: "symbol (mk_input ''A'' df ms) = ''A''" for df ms
    by (simp add: mk_input_def)
  have f1: "threshold_filter (mk_args 15 20 5 500 0)
      (mk_growth [20, 200 / 9] [100 / 3, 80] (Num 120) (Num 20)) = Some RevenueBelowLimit"
    and f2: "threshold_filter (mk_args 15 20 5 0 0)
      (mk_growth [20, 200 / 9] [100 / 3, 80] (Num 120) (Num 20)) = None"
    by (simp_all add: mk_growth_def main_defs)
  have mc: "get_latest_market_cap scenario_ms = Inr (PNum (Num 50000000000))"
    by (simp add: get_latest_market_cap_def scenario_ms_def sort_desc_def)
  note c0 = process_symbol_order[THEN conjunct1, THEN mp, OF h0, of "mk_args 15 20 5 0 0"]
  note c1 = process_symbol_order[THEN conjunct2, THEN mp, OF hi, THEN conjunct1, THEN mp, OF nd,
      of "mk_args 15 20 5 0 0" scenario_ms]
  note c2 = process_symbol_order[THEN conjunct2, THEN mp, OF hi, THEN conjunct2, THEN conjunct1,
      THEN mp, OF conjI, OF g f1, of scenario_ms]
  note c3 = process_symbol_order[THEN conjunct2, THEN mp, OF hi, THEN conjunct2, THEN conjunct2,
      THEN mp, OF conjI, OF g f2, THEN conjunct1, THEN mp, OF mc]
  note c4 = process_symbol_order[THEN conjunct2, THEN mp, OF hi, THEN conjunct2, THEN conjunct2,
      THEN mp, OF conjI, OF g f2, THEN conjunct2, THEN mp, OF refl]
  from h0 c0 c1 c2 c3 c4 show ?thesis by (simp add: sy)
qed

text \<open>
  The claim as stated fails for a symbol without a market-cap file whose fundamentals
  give the triple of None: the claim has it skipped for insufficient fundamentals, the
  code skips it for the missing market cap before any growth is computed.
\<close>

theorem process_symbol_order_counterexample:
  "fs_read no_ms_input = Some [] \<and>
   get_annual_growth [] = Inr None \<and>
   process_symbol (mk_args 15 20 5 0 0) no_ms_input = Inl MarketCapNotFound \<and>
   process_symbol (mk_args 15 20 5 0 0) no_ms_input \<noteq> Inl InsufficientData"
  by (simp add: process_symbol_def few_records_no_data no_ms_input_def)

subsection \<open>A failure while one symbol is processed\<close>

lemma set_collect: "set (collect a ss) = {row. \<exists>s \<in> set ss. process_symbol a s = Inr row}"
  by (induction ss) (auto split: sum.splits)

lemma set_list_sort: "list_sort key xs = Returns ys \<Longrightarrow> set ys = set xs"
  by (auto simp: list_sort_def Let_def split: if_splits)

lemma set_main: "main a ss = Returns rows \<Longrightarrow> set rows \<subseteq> set (collect a ss)"
proof -
  assume m: "main a ss = Returns rows"
  then obtain rs where s: "list_sort r_market_cap (collect a ss) = Returns rs"
    and r: "rows = slice_to rs (num_result a)"
    by (auto simp: main_def rank_def print_rows_def split: outcome.splits if_splits)
  from set_list_sort[OF s] set_slice_to[of rs "num_result a"] r show ?thesis by simp
qed

lemma accepted_validated:
  assumes "process_symbol a s = Inr row"
  shows "\<exists>fs ms g mc. ms_exists s \<and> fs_read s = Some fs \<and> ms_read s = Some ms \<and>
           get_annual_growth fs = Inr (Some g) \<and> threshold_filter a g = None \<and>
           get_latest_market_cap ms = Inr mc \<and> row = make_row (symbol s) g mc"
  using assms
  by (auto simp: process_symbol_def split: if_splits option.splits sum.splits)

text \<open>
  Inside the loop a failure is isolated: a symbol whose processing raises is skipped, and
  the collected rows and the run are those of the list without it. When the run returns,
  every row printed belongs to a symbol of the list whose files were read, whose growth
  was computed, which passed the floors and the growth branch, and whose market cap was
  read.
\<close>

lemma loop_failure_isolated:
  "(process_symbol a s = Inl (ProcessingError e) \<longrightarrow>
      collect a (xs @ s # ys) = collect a xs @ collect a ys \<and>
      main a (xs @ s # ys) = main a (xs @ ys)) \<and>
   (main a ss = Returns rows \<longrightarrow>
      (\<forall>row \<in> set rows. \<exists>s' \<in> set ss. \<exists>fs ms g mc.
         ms_exists s' \<and> fs_read s' = Some fs \<and> ms_read s' = Some ms \<and>
         get_annual_growth fs = Inr (Some g) \<and> threshold_filter a g = None \<and>
         get_latest_market_cap ms = Inr mc \<and> row = make_row (symbol s') g mc))"
proof (intro conjI impI ballI)
  assume "process_symbol a s = Inl (ProcessingError e)"
  then show "collect a (xs @ s # ys) = collect a xs @ collect a ys"
    by (simp add: collect_append)
  then show "main a (xs @ s # ys) = main a (xs @ ys)"
    by (simp add: main_def collect_append)
next
  fix row assume "main a ss = Returns rows" and "row \<in> set rows"
  with set_main have "row \<in> set (collect a ss)" by blast
  then obtain s' where "s' \<in> set ss" and "process_symbol a s' = Inr row"
    by (auto simp: set_collect)
  with accepted_validated show "\<exists>s' \<in> set ss. \<exists>fs ms g mc.
      ms_exists s' \<and> fs_read s' = Some fs \<and> ms_read s' = Some ms \<and>
      get_annual_growth fs = Inr (Some g) \<and> threshold_filter a g = None \<and>
      get_latest_market_cap ms = Inr mc \<and> row = make_row (symbol s') g mc"
    by blast
qed

text \<open>
  Claim C9. The code breaks the claim after the loop. A symbol whose market-cap column
  holds text (a cell such as 1,234,567) passes every step inside the try block, since
  \<^verbatim>\<open>get_latest_market_cap\<close> hands the cell on unchecked, and its row is appended. Next to
  a row with a numeric market cap, the sort of line 160 compares a text with a float and
  raises TypeError; alone, the format of line 164 raises ValueError. Both lines are
  outside the try block, so the failure of one symbol ends the run and no ranked table is
  completed.
\<close>

theorem text_market_cap_aborts_run:
  "process_symbol (mk_args 15 20 5 0 0) (mk_input ''A'' scenario_df scenario_ms)
     = Inr (make_row ''A'' (mk_growth [20, 200 / 9] [100 / 3, 80] (Num 120) (Num 20))
             (PNum (Num 50000000000))) \<and>
   process_symbol (mk_args 15 20 5 0 0)
       (mk_input ''T'' scenario_df (mk_ms (PStr ''1,234,567'')))
     = Inr (make_row ''T'' (mk_growth [20, 200 / 9] [100 / 3, 80] (Num 120) (Num 20))
             (PStr ''1,234,567'')) \<and>
   main (mk_args 15 20 5 0 0)
       [mk_input ''A'' scenario_df scenario_ms,
        mk_input ''T'' scenario_df (mk_ms (PStr ''1,234,567''))]
     = Raises TypeError \<and>
   main (mk_args 15 20 5 0 0) [mk_input ''T'' scenario_df (mk_ms (PStr ''1,234,567''))]
     = Raises ValueError \<and>
   main (mk_args 15 20 5 0 0) [mk_input ''A'' scenario_df scenario_ms]
     = Returns [make_row ''A'' (mk_growth [20, 200 / 9] [100 / 3, 80] (Num 120) (Num 20))
                 (PNum (Num 50000000000))]"
proof -
  have p: "process_symbol (mk_args 15 20 5 0 0) (mk_input name scenario_df (mk_ms mc))
      = Inr (make_row name (mk_growth [20, 200 / 9] [100 / 3, 80] (Num 120) (Num 20)) mc)"
    for name mc
    by (simp add: scenario_growth main_defs mk_growth_def mk_ms_def sort_desc_def)
  have ms: "scenario_ms = mk_ms (PNum (Num 50000000000))"
    by (simp add: scenario_ms_def mk_ms_def)
  have nr: "num_result (mk_args 15 20 5 0 0) = 5"
    by (simp add: mk_args_def)
  have m2: "main (mk_args 15 20 5 0 0)
       [mk_input ''A'' scenario_df scenario_ms,
        mk_input ''T'' scenario_df (mk_ms (PStr ''1,234,567''))]
     = Raises TypeError"
    by (simp add: main_def ms p rank_def list_sort_def make_row_def)
  have m1: "main (mk_args 15 20 5 0 0)
       [mk_input ''T'' scenario_df (mk_ms (PStr ''1,234,567''))]
     = Raises ValueError"
    by (simp add: main_def p nr rank_def list_sort_def slice_to_def print_rows_def
        make_row_def)
  have m0: "main (mk_args 15 20 5 0 0) [mk_input ''A'' scenario_df scenario_ms]
     = Returns [make_row ''A'' (mk_growth [20, 200 / 9] [100 / 3, 80] (Num 120) (Num 20))
                 (PNum (Num 50000000000))]"
    by (simp add: main_def ms p nr rank_def list_sort_def slice_to_def print_rows_def
        make_row_def)
  from p[of "''A''" "PNum (Num 50000000000)"] p[of "''T''" "PStr ''1,234,567''"] m2 m1 m0
  show ?thesis by (simp add: ms)
qed

end
